theory Spec2Isabelle
  imports Main "HOL-Library.Word"
begin

text \<open>
  A model of \<^verbatim>\<open>server.js\<close>, the BlockCall token server: the registry of group rooms, the
  derivation of room names, and the request handlers.  What the server takes from its
  environment (the JavaScript runtime, the LiveKit SDK, the process environment) is a
  parameter of the model.
\<close>

section \<open>JavaScript strings\<close>

text \<open>
  A JavaScript string is a sequence of UTF-16 code units; \<open>length\<close>, \<open>substring\<close> and the
  relational operators all work on code units.  Wallet addresses, room codes, tokens and
  messages are such strings.  \<open>lit\<close> embeds an ASCII literal of the source.
\<close>

type_synonym code_unit = "16 word"
type_synonym jsstring = "code_unit list"

definition lit :: "string \<Rightarrow> jsstring" where
  "lit s = map of_char s"

text \<open>
  \<^verbatim>\<open>s.substring(start, end)\<close> for non-negative integer arguments: both indices are clamped
  to the length and swapped when they are out of order.
\<close>

definition substring :: "jsstring \<Rightarrow> nat \<Rightarrow> nat \<Rightarrow> jsstring" where
  "substring s start end =
     (let len = length s;
          a = min start len;
          b = min end len;
          from = min a b;
          to = max a b
      in take (to - from) (drop from s))"

text \<open>
  \<^verbatim>\<open>toLowerCase\<close> and \<open>toUpperCase\<close> are built into the runtime.  On a string of ASCII
  code units they map each letter on its own; what they do to any other string (the
  Unicode case tables) is not part of the repository and is taken from the runtime
  record below.
\<close>

definition is_ascii :: "code_unit \<Rightarrow> bool" where
  "is_ascii c = (c < 0x80)"

definition ascii_lower :: "code_unit \<Rightarrow> code_unit" where
  "ascii_lower c = (if 0x41 \<le> c \<and> c \<le> 0x5A then c + 0x20 else c)"

definition ascii_upper :: "code_unit \<Rightarrow> code_unit" where
  "ascii_upper c = (if 0x61 \<le> c \<and> c \<le> 0x7A then c - 0x20 else c)"

text \<open>
  The relational operator \<^verbatim>\<open><\<close> on two strings: lexicographic on code units, a proper
  prefix being smaller.
\<close>

fun js_less :: "jsstring \<Rightarrow> jsstring \<Rightarrow> bool" where
  "js_less [] [] = False"
| "js_less [] (y # ys) = True"
| "js_less (x # xs) [] = False"
| "js_less (x # xs) (y # ys) = (x < y \<or> (x = y \<and> js_less xs ys))"

text \<open>
  \<^verbatim>\<open>Array.prototype.sort()\<close> without a comparator, on an array of strings: the default
  comparison is \<open>sortCompare\<close>, and the sort is stable.  It is written as an insertion
  sort that places each element behind the elements that are not greater.
\<close>

definition sortCompare :: "jsstring \<Rightarrow> jsstring \<Rightarrow> int" where
  "sortCompare x y = (if js_less x y then - 1 else if js_less y x then 1 else 0)"

fun insert_sorted :: "jsstring \<Rightarrow> jsstring list \<Rightarrow> jsstring list" where
  "insert_sorted x [] = [x]"
| "insert_sorted x (y # ys) =
     (if sortCompare y x \<le> 0 then y # insert_sorted x ys else x # y # ys)"

definition array_sort :: "jsstring list \<Rightarrow> jsstring list" where
  "array_sort xs = foldl (\<lambda>acc x. insert_sorted x acc) [] xs"

section \<open>The token issuer and the runtime\<close>

text \<open>
  The object literals handed to \<^verbatim>\<open>generateToken\<close> as \<open>metadata\<close>, the grant given to
  \<^verbatim>\<open>addGrant\<close>, and the \<^verbatim>\<open>AccessToken\<close> built from them.  \<^verbatim>\<open>JSON.stringify(metadata)\<close>
  is kept as the record it serialises.
\<close>

record metadata =
  md_displayName :: "jsstring option"
  md_walletAddress :: jsstring
  md_isHost :: "bool option"
  md_isCaller :: "bool option"
  md_callType :: jsstring

record video_grant =
  roomJoin :: bool
  room :: jsstring
  canPublish :: bool
  canSubscribe :: bool
  canPublishData :: bool

record access_token =
  at_identity :: jsstring
  at_name :: jsstring
  at_metadata :: metadata
  at_grant :: video_grant

text \<open>
  Everything the handlers take from outside the repository during one request:
  \<^item> \<open>unicodeLower\<close>, \<open>unicodeUpper\<close>: the runtime's case conversion of strings that are not
    pure ASCII;
  \<^item> \<open>mathRandom36\<close>: the value of \<^verbatim>\<open>Math.random().toString(36)\<close>;
  \<^item> \<open>dateNow\<close>: the value of \<^verbatim>\<open>Date.now()\<close>;
  \<^item> \<open>LIVEKIT_URL\<close>: the environment variable, possibly unset;
  \<^item> \<open>toJwt\<close>: the LiveKit SDK with the configured key and secret, from the \<^verbatim>\<open>AccessToken\<close>
    constructor to \<^verbatim>\<open>at.toJwt()\<close>; it yields the signed token (\<open>Inr\<close>) or throws an error
    with a message (\<open>Inl\<close>).
\<close>

record runtime =
  unicodeLower :: "jsstring \<Rightarrow> jsstring"
  unicodeUpper :: "jsstring \<Rightarrow> jsstring"
  mathRandom36 :: jsstring
  dateNow :: int
  LIVEKIT_URL :: "jsstring option"
  toJwt :: "access_token \<Rightarrow> jsstring + jsstring"

definition toLowerCase :: "runtime \<Rightarrow> jsstring \<Rightarrow> jsstring" where
  "toLowerCase rt s = (if list_all is_ascii s then map ascii_lower s else unicodeLower rt s)"

definition toUpperCase :: "runtime \<Rightarrow> jsstring \<Rightarrow> jsstring" where
  "toUpperCase rt s = (if list_all is_ascii s then map ascii_upper s else unicodeUpper rt s)"

text \<open>
  \<^verbatim>\<open>generateToken\<close>, lines 17 to 37.  \<open>accessToken\<close> is the object \<^verbatim>\<open>at\<close> after
  \<^verbatim>\<open>addGrant\<close>; \<^verbatim>\<open>metadata.displayName || participantName.substring(0, 8)\<close> takes the
  display name when it is a non-empty string.
\<close>

definition accessToken :: "jsstring \<Rightarrow> jsstring \<Rightarrow> metadata \<Rightarrow> access_token" where
  "accessToken roomName participantName md =
     \<lparr> at_identity = participantName,
       at_name = (case md_displayName md of
                    None \<Rightarrow> substring participantName 0 8
                  | Some d \<Rightarrow> if d = [] then substring participantName 0 8 else d),
       at_metadata = md,
       at_grant = \<lparr> roomJoin = True, room = roomName, canPublish = True,
                    canSubscribe = True, canPublishData = True \<rparr> \<rparr>"

definition generateToken ::
  "runtime \<Rightarrow> jsstring \<Rightarrow> jsstring \<Rightarrow> metadata \<Rightarrow> jsstring + jsstring" where
  "generateToken rt roomName participantName md =
     toJwt rt (accessToken roomName participantName md)"

section \<open>Room-name derivation\<close>

text \<open>\<^verbatim>\<open>generateRoomId\<close>, lines 40 to 42.\<close>

definition generateRoomId :: "runtime \<Rightarrow> jsstring" where
  "generateRoomId rt = toUpperCase rt (substring (mathRandom36 rt) 2 12)"

text \<open>\<^verbatim>\<open>createP2PRoomName\<close>, lines 45 to 48.\<close>

definition createP2PRoomName :: "runtime \<Rightarrow> jsstring \<Rightarrow> jsstring \<Rightarrow> jsstring" where
  "createP2PRoomName rt wallet1 wallet2 =
     (let sorted = array_sort [toLowerCase rt wallet1, toLowerCase rt wallet2]
      in lit ''call-'' @ substring (sorted ! 0) 0 8 @ lit ''-'' @ substring (sorted ! 1) 0 8)"

section \<open>The room registry\<close>

record room_rec =
  room_id :: jsstring
  host :: jsstring
  participants :: "jsstring list"
  created :: int

type_synonym registry = "jsstring \<rightharpoonup> room_rec"

text \<open>
  The server's state: the \<^verbatim>\<open>rooms\<close> map, and a log of the \<^verbatim>\<open>AccessToken\<close> objects handed
  to the SDK, which makes the calls of the token issuer visible.
\<close>

record server =
  rooms :: registry
  sdkCalls :: "access_token list"

definition initial :: server where
  "initial = \<lparr> rooms = Map.empty, sdkCalls = [] \<rparr>"

text \<open>
  The registry operations are the parts of the handlers that touch \<^verbatim>\<open>rooms\<close>.
  \<open>createRoom\<close> is lines 71 to 81 of the create-room handler.
\<close>

definition createRoom :: "runtime \<Rightarrow> registry \<Rightarrow> jsstring \<Rightarrow> jsstring \<times> registry" where
  "createRoom rt rs walletAddress =
     (let roomId = generateRoomId rt;
          r = \<lparr> room_id = roomId, host = walletAddress,
                participants = [walletAddress], created = dateNow rt \<rparr>
      in (roomId, rs(roomId \<mapsto> r)))"

text \<open>\<open>getRoom\<close> is \<^verbatim>\<open>rooms.get(roomId)\<close>.\<close>

definition getRoom :: "registry \<Rightarrow> jsstring \<Rightarrow> room_rec option" where
  "getRoom rs roomId = rs roomId"

text \<open>
  \<open>joinRoom\<close> is lines 115 to 124 of the join-room handler: \<open>None\<close> when the room is not
  found, otherwise the room object after the push and the registry that holds it.
\<close>

definition joinRoom ::
  "registry \<Rightarrow> jsstring \<Rightarrow> jsstring \<Rightarrow> (room_rec \<times> registry) option" where
  "joinRoom rs roomId walletAddress =
     (case rs roomId of
        None \<Rightarrow> None
      | Some r \<Rightarrow>
          (let r' = (if walletAddress \<in> set (participants r) then r
                     else r\<lparr>participants := participants r @ [walletAddress]\<rparr>)
           in Some (r', rs(roomId \<mapsto> r'))))"

text \<open>
  \<open>leaveRoom\<close> is lines 225 to 234 of the leave-room handler.  Neither field of the body is
  checked there, so both may be \<^verbatim>\<open>undefined\<close> (\<open>None\<close>): an undefined key is in no
  map whose keys are strings, and an undefined value differs from every participant.
\<close>

definition leaveRoom ::
  "registry \<Rightarrow> jsstring option \<Rightarrow> jsstring option \<Rightarrow> registry" where
  "leaveRoom rs roomId walletAddress =
     (case roomId of
        None \<Rightarrow> rs
      | Some k \<Rightarrow>
          (case rs k of
             None \<Rightarrow> rs
           | Some r \<Rightarrow>
               (let ps = filter (\<lambda>p. Some p \<noteq> walletAddress) (participants r)
                in if length ps = 0 then rs(k := None)
                   else rs(k \<mapsto> r\<lparr>participants := ps\<rparr>))))"

section \<open>The request handlers\<close>

text \<open>
  \<^verbatim>\<open>req.body\<close> is the object that \<^verbatim>\<open>express.json()\<close> has parsed.  The record holds the
  fields the handlers read from it, each absent (\<open>None\<close>) or a string, as wallet addresses
  and room codes are.  \<open>falsy v\<close> is \<^verbatim>\<open>!v\<close>: true of an absent field and of the empty
  string.  A handler takes the string out of a field (\<open>the\<close>) only behind that check.
\<close>

record body =
  roomId :: "jsstring option"
  walletAddress :: "jsstring option"
  callerWallet :: "jsstring option"
  calleeWallet :: "jsstring option"

definition falsy :: "jsstring option \<Rightarrow> bool" where
  "falsy v = (case v of None \<Rightarrow> True | Some s \<Rightarrow> s = [])"

text \<open>The JSON bodies the handlers send, and the response with its status code.\<close>

datatype reply =
    ErrorBody jsstring
  | CreateRoomBody jsstring jsstring "jsstring option"
  | JoinRoomBody jsstring "jsstring option" jsstring jsstring nat
  | CallBody jsstring jsstring "jsstring option"
  | SuccessBody
  | RoomInfoBody jsstring jsstring nat int

record response =
  status :: nat
  payload :: reply

definition json :: "reply \<Rightarrow> response" where
  "json b = \<lparr> status = 200, payload = b \<rparr>"

definition fail :: "nat \<Rightarrow> string \<Rightarrow> response" where
  "fail code msg = \<lparr> status = code, payload = ErrorBody (lit msg) \<rparr>"

definition caught :: "jsstring \<Rightarrow> response" where
  "caught msg = \<lparr> status = 500, payload = ErrorBody msg \<rparr>"

text \<open>POST /api/create-room, lines 62 to 103.\<close>

definition create_room :: "runtime \<Rightarrow> server \<Rightarrow> body \<Rightarrow> response \<times> server" where
  "create_room rt s b =
     (if falsy (walletAddress b) then (fail 400 ''Wallet address required'', s)
      else
        (let w = the (walletAddress b);
             (rid, rs) = createRoom rt (rooms s) w;
             md = \<lparr> md_displayName = None, md_walletAddress = w, md_isHost = Some True,
                    md_isCaller = None, md_callType = lit ''group'' \<rparr>;
             token = generateToken rt (lit ''meeting-'' @ rid) w md;
             s' = s\<lparr>rooms := rs,
                    sdkCalls := sdkCalls s @ [accessToken (lit ''meeting-'' @ rid) w md]\<rparr>
         in case token of
              Inl msg \<Rightarrow> (caught msg, s')
            | Inr tok \<Rightarrow> (json (CreateRoomBody rid tok (LIVEKIT_URL rt)), s')))"

text \<open>POST /api/join-room, lines 106 to 150.\<close>

definition join_room :: "runtime \<Rightarrow> server \<Rightarrow> body \<Rightarrow> response \<times> server" where
  "join_room rt s b =
     (if falsy (roomId b) \<or> falsy (walletAddress b)
      then (fail 400 ''Room ID and wallet address required'', s)
      else
        (let rid = the (roomId b); w = the (walletAddress b)
         in case joinRoom (rooms s) rid w of
              None \<Rightarrow> (fail 404 ''Room not found'', s)
            | Some (r, rs) \<Rightarrow>
                (let md = \<lparr> md_displayName = None, md_walletAddress = w,
                            md_isHost = Some False, md_isCaller = None,
                            md_callType = lit ''group'' \<rparr>;
                     token = generateToken rt (lit ''meeting-'' @ rid) w md;
                     s' = s\<lparr>rooms := rs,
                            sdkCalls := sdkCalls s @ [accessToken (lit ''meeting-'' @ rid) w md]\<rparr>
                 in case token of
                      Inl msg \<Rightarrow> (caught msg, s')
                    | Inr tok \<Rightarrow>
                        (json (JoinRoomBody tok (LIVEKIT_URL rt) (room_id r) (host r)
                                 (length (participants r))), s'))))"

text \<open>POST /api/start-call, lines 153 to 184.\<close>

definition start_call :: "runtime \<Rightarrow> server \<Rightarrow> body \<Rightarrow> response \<times> server" where
  "start_call rt s b =
     (if falsy (callerWallet b) \<or> falsy (calleeWallet b)
      then (fail 400 ''Both wallet addresses required'', s)
      else
        (let caller = the (callerWallet b); callee = the (calleeWallet b);
             roomName = createP2PRoomName rt caller callee;
             md = \<lparr> md_displayName = None, md_walletAddress = caller, md_isHost = None,
                    md_isCaller = Some True, md_callType = lit ''p2p'' \<rparr>;
             token = generateToken rt roomName caller md;
             s' = s\<lparr>sdkCalls := sdkCalls s @ [accessToken roomName caller md]\<rparr>
         in case token of
              Inl msg \<Rightarrow> (caught msg, s')
            | Inr tok \<Rightarrow> (json (CallBody tok roomName (LIVEKIT_URL rt)), s')))"

text \<open>POST /api/answer-call, lines 187 to 218.\<close>

definition answer_call :: "runtime \<Rightarrow> server \<Rightarrow> body \<Rightarrow> response \<times> server" where
  "answer_call rt s b =
     (if falsy (callerWallet b) \<or> falsy (calleeWallet b)
      then (fail 400 ''Both wallet addresses required'', s)
      else
        (let caller = the (callerWallet b); callee = the (calleeWallet b);
             roomName = createP2PRoomName rt caller callee;
             md = \<lparr> md_displayName = None, md_walletAddress = callee, md_isHost = None,
                    md_isCaller = Some False, md_callType = lit ''p2p'' \<rparr>;
             token = generateToken rt roomName callee md;
             s' = s\<lparr>sdkCalls := sdkCalls s @ [accessToken roomName callee md]\<rparr>
         in case token of
              Inl msg \<Rightarrow> (caught msg, s')
            | Inr tok \<Rightarrow> (json (CallBody tok roomName (LIVEKIT_URL rt)), s')))"

text \<open>POST /api/leave-room, lines 221 to 244.  Nothing in the \<^verbatim>\<open>try\<close> block can throw.\<close>

definition leave_room :: "server \<Rightarrow> body \<Rightarrow> response \<times> server" where
  "leave_room s b =
     (json SuccessBody, s\<lparr>rooms := leaveRoom (rooms s) (roomId b) (walletAddress b)\<rparr>)"

text \<open>GET /api/room/:roomId, lines 247 to 270; the path parameter is a string.\<close>

definition get_room :: "server \<Rightarrow> jsstring \<Rightarrow> response \<times> server" where
  "get_room s rid =
     (case getRoom (rooms s) rid of
        None \<Rightarrow> (fail 404 ''Room not found'', s)
      | Some r \<Rightarrow>
          (json (RoomInfoBody (room_id r) (host r) (length (participants r)) (created r)), s))"

text \<open>
  The server handles one request after the other, each to completion and each with
  its own random number, clock reading and token issuer outcome.
\<close>

datatype request =
    PostCreateRoom body
  | PostJoinRoom body
  | PostStartCall body
  | PostAnswerCall body
  | PostLeaveRoom body
  | GetRoomInfo jsstring

fun handle :: "runtime \<Rightarrow> server \<Rightarrow> request \<Rightarrow> response \<times> server" where
  "handle rt s (PostCreateRoom b) = create_room rt s b"
| "handle rt s (PostJoinRoom b) = join_room rt s b"
| "handle rt s (PostStartCall b) = start_call rt s b"
| "handle rt s (PostAnswerCall b) = answer_call rt s b"
| "handle rt s (PostLeaveRoom b) = leave_room s b"
| "handle rt s (GetRoomInfo rid) = get_room s rid"

fun run :: "server \<Rightarrow> (runtime \<times> request) list \<Rightarrow> server" where
  "run s [] = s"
| "run s ((rt, req) # tr) = run (snd (handle rt s req)) tr"

section \<open>Alphabets of the room code\<close>

text \<open>
  \<^verbatim>\<open>Number.prototype.toString(36)\<close> writes a number with the digits \<open>0\<close> to \<open>9\<close> and
  \<open>a\<close> to \<open>z\<close>.  For a number in the range of \<^verbatim>\<open>Math.random()\<close>, zero up to but not
  including one, the result is \<open>0\<close> alone or \<open>0.\<close> followed by at least one digit; such a
  string is a \<open>radix36_fraction\<close>.  The room code is meant to consist of the upper-case
  counterparts, \<open>is_upper_alnum\<close>.
\<close>

definition is_digit36 :: "code_unit \<Rightarrow> bool" where
  "is_digit36 c = ((0x30 \<le> c \<and> c \<le> 0x39) \<or> (0x61 \<le> c \<and> c \<le> 0x7A))"

definition is_upper_alnum :: "code_unit \<Rightarrow> bool" where
  "is_upper_alnum c = ((0x30 \<le> c \<and> c \<le> 0x39) \<or> (0x41 \<le> c \<and> c \<le> 0x5A))"

definition radix36_fraction :: "jsstring \<Rightarrow> bool" where
  "radix36_fraction r =
     (r = lit ''0'' \<or>
      (take 2 r = lit ''0.'' \<and> 2 < length r \<and> list_all is_digit36 (drop 2 r)))"

section \<open>Example runtimes\<close>

text \<open>
  Concrete runtimes on which the handlers are evaluated below: one whose token issuer
  signs every token, one whose token issuer throws (no API key configured), one where
  \<^verbatim>\<open>Math.random()\<close> returns one half, which radix 36 writes as \<open>0.i\<close>, and one where it
  returns zero, written \<open>0\<close>.
\<close>

definition demo_runtime :: runtime where
  "demo_runtime =
     \<lparr> unicodeLower = (\<lambda>s. s), unicodeUpper = (\<lambda>s. s),
       mathRandom36 = lit ''0.4fzyo82mvyr'', dateNow = 1700000000000,
       LIVEKIT_URL = Some (lit ''wss://blockcall.livekit.cloud''),
       toJwt = (\<lambda>at. Inr (lit ''jwt.'' @ at_identity at)) \<rparr>"

definition failing_runtime :: runtime where
  "failing_runtime =
     demo_runtime\<lparr>toJwt := (\<lambda>at. Inl (lit ''api-key and api-secret must be set''))\<rparr>"

definition half_runtime :: runtime where
  "half_runtime = demo_runtime\<lparr>mathRandom36 := lit ''0.i''\<rparr>"

definition zero_runtime :: runtime where
  "zero_runtime = demo_runtime\<lparr>mathRandom36 := lit ''0''\<rparr>"

section \<open>Example requests\<close>

definition no_body :: body where
  "no_body = \<lparr> roomId = None, walletAddress = None, callerWallet = None, calleeWallet = None \<rparr>"

definition alice :: jsstring where
  "alice = lit ''0xAlice1234''"

definition bob :: jsstring where
  "bob = lit ''0xBob5678''"

definition call_body :: body where
  "call_body = \<lparr> roomId = None, walletAddress = None,
                 callerWallet = Some alice, calleeWallet = Some bob \<rparr>"

definition host_body :: body where
  "host_body = \<lparr> roomId = None, walletAddress = Some (lit ''0xAAA1''),
                 callerWallet = None, calleeWallet = None \<rparr>"

definition demo_room_id :: jsstring where
  "demo_room_id = lit ''4FZYO82MVY''"

definition guest_body :: body where
  "guest_body = \<lparr> roomId = Some demo_room_id, walletAddress = Some (lit ''0xBBB2''),
                  callerWallet = None, calleeWallet = None \<rparr>"

definition demo_room :: room_rec where
  "demo_room = \<lparr> room_id = demo_room_id, host = lit ''0xAAA1'',
                 participants = [lit ''0xAAA1'', lit ''0xBBB2''], created = 1700000000000 \<rparr>"

definition empty_id_body :: body where
  "empty_id_body = \<lparr> roomId = Some [], walletAddress = Some (lit ''0xBBB2''),
                     callerWallet = None, calleeWallet = None \<rparr>"

definition no_wallet_body :: body where
  "no_wallet_body = \<lparr> roomId = Some demo_room_id, walletAddress = None,
                      callerWallet = None, calleeWallet = None \<rparr>"

definition host_leaves_body :: body where
  "host_leaves_body = \<lparr> roomId = Some demo_room_id, walletAddress = Some (lit ''0xAAA1''),
                        callerWallet = None, calleeWallet = None \<rparr>"

text \<open>The server after the host alone has created a room.\<close>

definition host_alone :: server where
  "host_alone = snd (create_room demo_runtime initial host_body)"

text \<open>
  A run of three requests: the host creates a room, a guest joins it, and the guest
  joins it once more while the token issuer is failing.
\<close>

definition demo_trace :: "(runtime \<times> request) list" where
  "demo_trace = [(demo_runtime, PostCreateRoom host_body), (demo_runtime, PostJoinRoom guest_body),
                 (failing_runtime, PostJoinRoom guest_body)]"

section \<open>The registry invariant\<close>

text \<open>
  Every registered room has at least one participant and lists no participant twice.
  The predicate is used in proofs only.
\<close>

definition wf_registry :: "registry \<Rightarrow> bool" where
  "wf_registry rs =
     (\<forall>k r. rs k = Some r \<longrightarrow> distinct (participants r) \<and> participants r \<noteq> [])"

section \<open>Order independence of the peer-to-peer room name\<close>

lemma js_less_asym: "js_less a b \<Longrightarrow> \<not> js_less b a"
  by (induction a b rule: js_less.induct) auto

lemma js_less_total: "\<not> js_less a b \<Longrightarrow> \<not> js_less b a \<Longrightarrow> a = b"
  by (induction a b rule: js_less.induct) auto

lemma array_sort_pair:
  "array_sort [a, b] = (if js_less b a then [b, a] else [a, b])"
  by (auto simp: array_sort_def sortCompare_def dest: js_less_asym)

lemma array_sort_swap: "array_sort [a, b] = array_sort [b, a]"
  by (auto simp: array_sort_pair dest: js_less_asym js_less_total)

lemma createP2PRoomName_swap:
  "createP2PRoomName rt a b = createP2PRoomName rt b a"
  by (simp add: createP2PRoomName_def array_sort_swap [of "toLowerCase rt a"])

lemma createP2PRoomName_cong:
  "unicodeLower rt1 = unicodeLower rt2 \<Longrightarrow>
   createP2PRoomName rt1 a b = createP2PRoomName rt2 a b"
  by (simp add: createP2PRoomName_def toLowerCase_def)

lemma start_call_roomName:
  "fst (start_call rt s b) = json (CallBody t n u) \<Longrightarrow>
   n = createP2PRoomName rt (the (callerWallet b)) (the (calleeWallet b))"
  by (auto simp: start_call_def Let_def json_def fail_def caught_def
           split: if_splits sum.splits)

lemma answer_call_roomName:
  "fst (answer_call rt s b) = json (CallBody t n u) \<Longrightarrow>
   n = createP2PRoomName rt (the (callerWallet b)) (the (calleeWallet b))"
  by (auto simp: answer_call_def Let_def json_def fail_def caught_def
           split: if_splits sum.splits)

text \<open>
  C1.  \<^verbatim>\<open>createP2PRoomName\<close> gives the same name for a pair of wallets in either order,
  whatever the runtime's case conversion does.  Hence, when start-call and answer-call
  are sent the same body and both answer with a token, the two answers carry the same
  \<open>roomName\<close>; the two requests may meet different server states and token issuers, on
  one and the same JavaScript engine.
\<close>

theorem p2p_room_name_order_independent:
  "createP2PRoomName rt A B = createP2PRoomName rt B A \<and>
   (unicodeLower rt1 = unicodeLower rt2 \<longrightarrow>
    fst (start_call rt1 s1 b) = json (CallBody t1 n1 u1) \<longrightarrow>
    fst (answer_call rt2 s2 b) = json (CallBody t2 n2 u2) \<longrightarrow> n1 = n2)"
  using createP2PRoomName_swap createP2PRoomName_cong start_call_roomName answer_call_roomName
  by metis

theorem p2p_room_name_order_independent_witness:
  "createP2PRoomName demo_runtime alice bob = createP2PRoomName demo_runtime bob alice \<and>
   fst (start_call demo_runtime initial call_body)
     = json (CallBody (lit ''jwt.0xAlice1234'') (lit ''call-0xalice1-0xbob567'')
               (Some (lit ''wss://blockcall.livekit.cloud''))) \<and>
   fst (answer_call demo_runtime initial call_body)
     = json (CallBody (lit ''jwt.0xBob5678'') (lit ''call-0xalice1-0xbob567'')
               (Some (lit ''wss://blockcall.livekit.cloud'')))"
proof -
  have s: "fst (start_call demo_runtime initial call_body)
     = json (CallBody (lit ''jwt.0xAlice1234'') (lit ''call-0xalice1-0xbob567'')
               (Some (lit ''wss://blockcall.livekit.cloud'')))"
    by code_simp
  have a: "fst (answer_call demo_runtime initial call_body)
     = json (CallBody (lit ''jwt.0xBob5678'') (lit ''call-0xalice1-0xbob567'')
               (Some (lit ''wss://blockcall.livekit.cloud'')))"
    by code_simp
  from p2p_room_name_order_independent
         [where rt = demo_runtime and A = alice and B = bob
            and ?rt1.0 = demo_runtime and ?rt2.0 = demo_runtime
            and ?s1.0 = initial and ?s2.0 = initial and b = call_body
            and ?t1.0 = "lit ''jwt.0xAlice1234''" and ?t2.0 = "lit ''jwt.0xBob5678''"
            and ?n1.0 = "lit ''call-0xalice1-0xbob567''"
            and ?n2.0 = "lit ''call-0xalice1-0xbob567''"
            and ?u1.0 = "Some (lit ''wss://blockcall.livekit.cloud'')"
            and ?u2.0 = "Some (lit ''wss://blockcall.livekit.cloud'')"]
    s a
  show ?thesis by simp
qed

section \<open>Creating a room\<close>

lemma createRoom_fst: "fst (createRoom rt rs H) = generateRoomId rt"
  by (simp add: createRoom_def Let_def)

lemma createRoom_snd:
  "snd (createRoom rt rs H) =
     rs(generateRoomId rt \<mapsto> \<lparr> room_id = generateRoomId rt, host = H, participants = [H],
                                 created = dateNow rt \<rparr>)"
  by (simp add: createRoom_def Let_def)

lemma create_room_rooms:
  "walletAddress b = Some H \<Longrightarrow> H \<noteq> [] \<Longrightarrow>
   rooms (snd (create_room rt s b)) = snd (createRoom rt (rooms s) H)"
  by (simp add: create_room_def falsy_def Let_def split_beta split: sum.splits)

lemma create_room_reply:
  "fst (create_room rt s b) = json (CreateRoomBody r t u) \<Longrightarrow> r = generateRoomId rt"
  by (auto simp: create_room_def Let_def split_beta createRoom_fst json_def fail_def caught_def
           split: if_splits sum.splits)

text \<open>
  C2.  For every host identifier \<open>H\<close>, \<open>createRoom\<close> returns the generated room id, and
  looking that id up in the registry it leaves behind yields the room with host \<open>H\<close> and
  participants \<open>[H]\<close>.  The create-room handler, once its body carries a non-empty
  \<open>walletAddress\<close>, leaves exactly that registry, and a success response names that id.
\<close>

theorem createRoom_registers_host:
  "fst (createRoom rt rs H) = generateRoomId rt \<and>
   getRoom (snd (createRoom rt rs H)) (generateRoomId rt) =
     Some \<lparr> room_id = generateRoomId rt, host = H, participants = [H],
            created = dateNow rt \<rparr> \<and>
   (walletAddress b = Some H \<longrightarrow> H \<noteq> [] \<longrightarrow>
      rooms (snd (create_room rt s b)) = snd (createRoom rt (rooms s) H) \<and>
      (\<forall>r t u. fst (create_room rt s b) = json (CreateRoomBody r t u) \<longrightarrow>
                 r = generateRoomId rt))"
  by (simp add: createRoom_fst createRoom_snd getRoom_def create_room_rooms create_room_reply)

theorem createRoom_registers_host_witness:
  "fst (create_room demo_runtime initial host_body) =
     json (CreateRoomBody demo_room_id (lit ''jwt.0xAAA1'')
             (Some (lit ''wss://blockcall.livekit.cloud''))) \<and>
   getRoom (rooms (snd (create_room demo_runtime initial host_body))) demo_room_id =
     Some \<lparr> room_id = demo_room_id, host = lit ''0xAAA1'', participants = [lit ''0xAAA1''],
            created = 1700000000000 \<rparr>"
proof -
  have w: "walletAddress host_body = Some (lit ''0xAAA1'')" "lit ''0xAAA1'' \<noteq> []"
    by (simp_all add: host_body_def lit_def)
  have g: "generateRoomId demo_runtime = demo_room_id"
    by code_simp
  have d: "dateNow demo_runtime = 1700000000000"
    by (simp add: demo_runtime_def)
  have r: "fst (create_room demo_runtime initial host_body) =
     json (CreateRoomBody demo_room_id (lit ''jwt.0xAAA1'')
             (Some (lit ''wss://blockcall.livekit.cloud'')))"
    by code_simp
  from createRoom_registers_host
         [of demo_runtime "rooms initial" "lit ''0xAAA1''" host_body initial] w
  show ?thesis
    by (simp add: g d r)
qed

section \<open>Joining a room\<close>

lemma joinRoom_Some:
  "rs k = Some r0 \<Longrightarrow>
   joinRoom rs k P =
     Some (if P \<in> set (participants r0) then r0
           else r0\<lparr>participants := participants r0 @ [P]\<rparr>,
           rs(k \<mapsto> (if P \<in> set (participants r0) then r0
                    else r0\<lparr>participants := participants r0 @ [P]\<rparr>)))"
  by (simp add: joinRoom_def Let_def)

lemma joinRoom_None: "rs k = None \<Longrightarrow> joinRoom rs k P = None"
  by (simp add: joinRoom_def)

lemma joinRoom_twice:
  "joinRoom rs k P = Some (r1, rs1) \<Longrightarrow> joinRoom rs1 k P = Some (r1, rs1)"
  by (auto simp: joinRoom_def Let_def split: option.splits if_splits)

lemma join_room_rooms:
  "rooms (snd (join_room rt s b)) =
     (if falsy (roomId b) \<or> falsy (walletAddress b) then rooms s
      else case joinRoom (rooms s) (the (roomId b)) (the (walletAddress b)) of
             None \<Rightarrow> rooms s | Some (r, rs) \<Rightarrow> rs)"
  by (simp add: join_room_def Let_def split: option.splits sum.splits prod.splits)

lemma join_room_twice:
  "rooms (snd (join_room rt2 (snd (join_room rt1 s b)) b)) = rooms (snd (join_room rt1 s b))"
  by (auto simp: join_room_rooms joinRoom_None split: option.splits dest: joinRoom_twice)

subsection \<open>What every handler does to the registry\<close>

lemma create_room_rooms_cases:
  "rooms (snd (create_room rt s b)) =
     (if falsy (walletAddress b) then rooms s
      else snd (createRoom rt (rooms s) (the (walletAddress b))))"
  by (simp add: create_room_def Let_def split_beta split: sum.splits)

lemma start_call_rooms: "rooms (snd (start_call rt s b)) = rooms s"
  by (simp add: start_call_def Let_def split: sum.splits)

lemma answer_call_rooms: "rooms (snd (answer_call rt s b)) = rooms s"
  by (simp add: answer_call_def Let_def split: sum.splits)

lemma leave_room_rooms:
  "rooms (snd (leave_room s b)) = leaveRoom (rooms s) (roomId b) (walletAddress b)"
  by (simp add: leave_room_def)

lemma get_room_state: "snd (get_room s k) = s"
  by (simp add: get_room_def split: option.splits)

subsection \<open>The invariant holds in every reachable state\<close>

lemma wf_createRoom: "wf_registry rs \<Longrightarrow> wf_registry (snd (createRoom rt rs w))"
  by (simp add: wf_registry_def createRoom_def Let_def)

lemma wf_joinRoom: "wf_registry rs \<Longrightarrow> joinRoom rs k w = Some (r, rs') \<Longrightarrow> wf_registry rs'"
  by (auto simp: wf_registry_def joinRoom_def Let_def split: option.splits if_splits)

lemma wf_leaveRoom: "wf_registry rs \<Longrightarrow> wf_registry (leaveRoom rs k w)"
  by (auto simp: wf_registry_def leaveRoom_def Let_def split: option.splits if_splits)

lemma wf_handle: "wf_registry (rooms s) \<Longrightarrow> wf_registry (rooms (snd (handle rt s req)))"
proof (cases req)
  case (PostCreateRoom b)
  assume "wf_registry (rooms s)"
  then show ?thesis
    by (simp add: PostCreateRoom create_room_rooms_cases wf_createRoom)
next
  case (PostJoinRoom b)
  assume "wf_registry (rooms s)"
  then show ?thesis
    by (auto simp: PostJoinRoom join_room_rooms split: option.splits dest: wf_joinRoom)
next
  case (PostStartCall b)
  assume "wf_registry (rooms s)"
  then show ?thesis by (simp add: PostStartCall start_call_rooms)
next
  case (PostAnswerCall b)
  assume "wf_registry (rooms s)"
  then show ?thesis by (simp add: PostAnswerCall answer_call_rooms)
next
  case (PostLeaveRoom b)
  assume "wf_registry (rooms s)"
  then show ?thesis by (simp add: PostLeaveRoom leave_room_rooms wf_leaveRoom)
next
  case (GetRoomInfo k)
  assume "wf_registry (rooms s)"
  then show ?thesis by (simp add: GetRoomInfo get_room_state)
qed

lemma wf_run: "wf_registry (rooms s) \<Longrightarrow> wf_registry (rooms (run s tr))"
proof (induction tr arbitrary: s)
  case Nil
  then show ?case by simp
next
  case (Cons step tr)
  obtain rt req where step: "step = (rt, req)" by (cases step)
  from Cons.prems have "wf_registry (rooms (snd (handle rt s req)))"
    by (rule wf_handle)
  then have "wf_registry (rooms (run (snd (handle rt s req)) tr))"
    by (rule Cons.IH)
  then show ?case by (simp add: step)
qed

lemma wf_initial: "wf_registry (rooms initial)"
  by (simp add: wf_registry_def initial_def)

lemma reachable_distinct:
  "rooms (run initial tr) k = Some r \<Longrightarrow> distinct (participants r)"
  using wf_run [OF wf_initial, of tr] by (simp add: wf_registry_def)

lemma reachable_nonempty:
  "rooms (run initial tr) k = Some r \<Longrightarrow> participants r \<noteq> []"
  using wf_run [OF wf_initial, of tr] by (simp add: wf_registry_def)

text \<open>
  C3.  For every registered room and every participant \<open>P\<close>, a second \<open>joinRoom\<close> with
  the same \<open>P\<close> right after the first returns a room whose participants list is as long
  as after the first call, and leaves the registry as the first call left it; the same
  holds of the join-room handler called twice with one body.  In every state the server
  reaches from the empty registry, by any sequence of requests under any runtimes, no
  room lists a participant twice.
\<close>

theorem join_room_never_duplicates:
  "(rs k = Some r0 \<longrightarrow>
      (\<exists>r1 rs1 r2 rs2.
         joinRoom rs k P = Some (r1, rs1) \<and> joinRoom rs1 k P = Some (r2, rs2) \<and>
         length (participants r2) = length (participants r1) \<and> rs2 = rs1)) \<and>
   rooms (snd (join_room rt2 (snd (join_room rt1 s b)) b)) = rooms (snd (join_room rt1 s b)) \<and>
   (rooms (run initial tr) k' = Some r \<longrightarrow> distinct (participants r))"
proof (intro conjI impI)
  assume "rs k = Some r0"
  then obtain r1 rs1 where j: "joinRoom rs k P = Some (r1, rs1)"
    by (simp add: joinRoom_Some)
  then have "joinRoom rs1 k P = Some (r1, rs1)"
    by (rule joinRoom_twice)
  with j show "\<exists>r1 rs1 r2 rs2.
         joinRoom rs k P = Some (r1, rs1) \<and> joinRoom rs1 k P = Some (r2, rs2) \<and>
         length (participants r2) = length (participants r1) \<and> rs2 = rs1"
    by blast
next
  show "rooms (snd (join_room rt2 (snd (join_room rt1 s b)) b)) = rooms (snd (join_room rt1 s b))"
    by (rule join_room_twice)
next
  assume "rooms (run initial tr) k' = Some r"
  then show "distinct (participants r)" by (rule reachable_distinct)
qed

theorem join_room_never_duplicates_witness:
  "rooms (run initial demo_trace) demo_room_id = Some demo_room \<and>
   joinRoom (rooms (run initial demo_trace)) demo_room_id (lit ''0xBBB2'') \<noteq> None \<and>
   map_option (\<lambda>(r, rs). length (participants r))
     (joinRoom (rooms (run initial demo_trace)) demo_room_id (lit ''0xBBB2'')) = Some 2 \<and>
   length (participants demo_room) = 2 \<and>
   distinct (participants demo_room)"
proof -
  have reach: "rooms (run initial demo_trace) demo_room_id = Some demo_room"
    by code_simp
  have again: "map_option (\<lambda>(r, rs). length (participants r))
     (joinRoom (rooms (run initial demo_trace)) demo_room_id (lit ''0xBBB2'')) = Some 2"
    by code_simp
  have len: "length (participants demo_room) = 2"
    by (simp add: demo_room_def)
  note inst = join_room_never_duplicates
         [where rs = "rooms (run initial demo_trace)" and k = demo_room_id and ?r0.0 = demo_room
            and P = "lit ''0xBBB2''" and ?rt1.0 = demo_runtime and ?rt2.0 = failing_runtime
            and s = host_alone and b = guest_body
            and tr = demo_trace and k' = demo_room_id and r = demo_room]
  from inst reach
  have "joinRoom (rooms (run initial demo_trace)) demo_room_id (lit ''0xBBB2'') \<noteq> None"
    by auto
  moreover from inst reach have "distinct (participants demo_room)"
    by blast
  ultimately show ?thesis using reach again len by (intro conjI)
qed

subsection \<open>Joining a room that is not registered\<close>

lemma join_room_unknown_state:
  "roomId b = Some k \<Longrightarrow> rooms s k = None \<Longrightarrow> snd (join_room rt s b) = s"
  by (simp add: join_room_def Let_def joinRoom_None)

lemma join_room_unknown_reply:
  "roomId b = Some k \<Longrightarrow> k \<noteq> [] \<Longrightarrow> walletAddress b = Some w \<Longrightarrow> w \<noteq> [] \<Longrightarrow>
   rooms s k = None \<Longrightarrow> fst (join_room rt s b) = fail 404 ''Room not found''"
  by (simp add: join_room_def Let_def joinRoom_None falsy_def)

text \<open>
  C4, as amended.  \<open>joinRoom\<close> on an id that is not registered signals not-found, and the
  join-room handler leaves the server state as it was.  The handler answers with status
  404 and the body \<open>{error: "Room not found"}\<close> when, in addition, the room id is not the
  empty string and the body carries a non-empty \<open>walletAddress\<close>: the presence check of
  lines 110 to 112 comes first and answers 400 otherwise.
\<close>

theorem join_room_unknown_room:
  "(rs k = None \<longrightarrow> joinRoom rs k w = None) \<and>
   (roomId b = Some k \<longrightarrow> rooms s k = None \<longrightarrow> snd (join_room rt s b) = s) \<and>
   (roomId b = Some k \<longrightarrow> k \<noteq> [] \<longrightarrow> walletAddress b = Some w \<longrightarrow> w \<noteq> [] \<longrightarrow>
    rooms s k = None \<longrightarrow>
      fst (join_room rt s b) =
        \<lparr> status = 404, payload = ErrorBody (lit ''Room not found'') \<rparr>)"
  using joinRoom_None [of rs k w] join_room_unknown_state [of b k s rt]
    join_room_unknown_reply [of b k w s rt]
  by (simp add: fail_def)

theorem join_room_unknown_room_witness:
  "rooms initial demo_room_id = None \<and>
   join_room demo_runtime initial guest_body =
     (\<lparr> status = 404, payload = ErrorBody (lit ''Room not found'') \<rparr>, initial)"
proof -
  have h: "roomId guest_body = Some demo_room_id" "demo_room_id \<noteq> []"
      "walletAddress guest_body = Some (lit ''0xBBB2'')" "lit ''0xBBB2'' \<noteq> []"
      "rooms initial demo_room_id = None"
    by (simp_all add: guest_body_def demo_room_id_def lit_def initial_def)
  from join_room_unknown_room
         [of "rooms initial" demo_room_id "lit ''0xBBB2''" guest_body initial demo_runtime] h
  show ?thesis
    by (simp add: prod_eq_iff)
qed

text \<open>
  The claim as it was stated fails: the empty string is a room id that is not in the
  empty registry, and join-room answers 400 for it; so it does for an unregistered room
  code when the body has no \<open>walletAddress\<close>.
\<close>

theorem join_room_unknown_room_counterexample:
  "rooms initial [] = None \<and>
   fst (join_room demo_runtime initial empty_id_body) =
     \<lparr> status = 400, payload = ErrorBody (lit ''Room ID and wallet address required'') \<rparr> \<and>
   rooms initial demo_room_id = None \<and>
   fst (join_room demo_runtime initial no_wallet_body) =
     \<lparr> status = 400, payload = ErrorBody (lit ''Room ID and wallet address required'') \<rparr>"
  by (simp add: initial_def join_room_def empty_id_body_def no_wallet_body_def falsy_def
        fail_def)

section \<open>Leaving a room\<close>

lemma leaveRoom_sole:
  "rs k = Some r \<Longrightarrow> set (participants r) = {P} \<Longrightarrow>
   leaveRoom rs (Some k) (Some P) k = None"
  by (auto simp: leaveRoom_def Let_def filter_empty_conv)

lemma leaveRoom_other: "k' \<noteq> k \<Longrightarrow> leaveRoom rs (Some k) w k' = rs k'"
  by (simp add: leaveRoom_def Let_def split: option.splits)

lemma leaveRoom_same:
  "rs k = Some r \<Longrightarrow>
   leaveRoom rs (Some k) w k =
     (if filter (\<lambda>p. Some p \<noteq> w) (participants r) = [] then None
      else Some (r\<lparr>participants := filter (\<lambda>p. Some p \<noteq> w) (participants r)\<rparr>))"
  by (simp add: leaveRoom_def Let_def)

lemma leaveRoom_unknown: "rs k = None \<Longrightarrow> leaveRoom rs (Some k) w = rs"
  by (simp add: leaveRoom_def)

text \<open>
  C5.  When every participant of a registered room is \<open>P\<close>, \<open>leaveRoom\<close> for \<open>P\<close> removes the
  room: \<open>getRoom\<close> finds nothing afterwards, and the room-info handler answers 404 after
  the leave-room handler.  In every state the server reaches from the empty registry,
  each registered room has a participant.
\<close>

theorem leaveRoom_last_participant:
  "(rs k = Some r \<longrightarrow> set (participants r) = {P} \<longrightarrow>
      getRoom (leaveRoom rs (Some k) (Some P)) k = None) \<and>
   (rooms s k = Some r \<longrightarrow> set (participants r) = {P} \<longrightarrow>
    roomId b = Some k \<longrightarrow> walletAddress b = Some P \<longrightarrow>
      fst (get_room (snd (leave_room s b)) k) =
        \<lparr> status = 404, payload = ErrorBody (lit ''Room not found'') \<rparr>) \<and>
   (rooms (run initial tr) k' = Some r' \<longrightarrow> participants r' \<noteq> [])"
  using leaveRoom_sole [of rs k r P] leaveRoom_sole [of "rooms s" k r P]
    reachable_nonempty [of tr k' r']
  by (simp add: getRoom_def get_room_def leave_room_def fail_def)

theorem leaveRoom_last_participant_witness:
  "rooms host_alone demo_room_id =
     Some \<lparr> room_id = demo_room_id, host = lit ''0xAAA1'', participants = [lit ''0xAAA1''],
            created = 1700000000000 \<rparr> \<and>
   getRoom (leaveRoom (rooms host_alone) (Some demo_room_id) (Some (lit ''0xAAA1'')))
     demo_room_id = None \<and>
   fst (get_room (snd (leave_room host_alone host_leaves_body)) demo_room_id) =
     \<lparr> status = 404, payload = ErrorBody (lit ''Room not found'') \<rparr> \<and>
   rooms (run initial demo_trace) demo_room_id = Some demo_room \<and>
   participants demo_room \<noteq> []"
proof -
  have alone: "rooms host_alone demo_room_id =
     Some \<lparr> room_id = demo_room_id, host = lit ''0xAAA1'', participants = [lit ''0xAAA1''],
            created = 1700000000000 \<rparr>"
    by code_simp
  have b: "roomId host_leaves_body = Some demo_room_id"
      "walletAddress host_leaves_body = Some (lit ''0xAAA1'')"
    by (simp_all add: host_leaves_body_def)
  have reach: "rooms (run initial demo_trace) demo_room_id = Some demo_room"
    by code_simp
  from leaveRoom_last_participant
         [where rs = "rooms host_alone" and k = demo_room_id
            and r = "\<lparr> room_id = demo_room_id, host = lit ''0xAAA1'',
                       participants = [lit ''0xAAA1''], created = 1700000000000 \<rparr>"
            and P = "lit ''0xAAA1''" and s = host_alone and b = host_leaves_body
            and tr = demo_trace and k' = demo_room_id and r' = demo_room]
       alone b reach
  show ?thesis
    by simp
qed

text \<open>
  C6.  Whatever the server state and whatever the body (room id unknown, participant
  not in the room, fields missing), leave-room answers with status 200 and the body
  \<open>{success: true}\<close>, and so it does when it is called again with the same body.
\<close>

theorem leave_room_always_succeeds:
  "fst (leave_room s b) = \<lparr> status = 200, payload = SuccessBody \<rparr> \<and>
   fst (leave_room (snd (leave_room s b)) b) = \<lparr> status = 200, payload = SuccessBody \<rparr>"
  by (simp add: leave_room_def json_def)

theorem leave_room_always_succeeds_witness:
  "fst (leave_room initial no_body) = \<lparr> status = 200, payload = SuccessBody \<rparr> \<and>
   fst (leave_room (snd (leave_room initial no_body)) no_body) =
     \<lparr> status = 200, payload = SuccessBody \<rparr>"
  by (rule leave_room_always_succeeds)

text \<open>
  C10, as amended.  When the named room is registered, leave-room replaces its
  participants list by the list filtered of the body's \<open>walletAddress\<close> (every occurrence
  goes, the others keep their order) and leaves its other fields alone, unless the
  filtered list is empty: then the room is deleted from the registry.  All other rooms
  stay as they were, the registry is unchanged when the named room is not registered,
  and no token is requested.
\<close>

theorem leave_room_frame:
  "(roomId b = Some k \<longrightarrow> rooms s k = Some r \<longrightarrow>
      rooms (snd (leave_room s b)) k =
        (if filter (\<lambda>p. Some p \<noteq> walletAddress b) (participants r) = [] then None
         else Some (r\<lparr>participants :=
                        filter (\<lambda>p. Some p \<noteq> walletAddress b) (participants r)\<rparr>))) \<and>
   (roomId b = Some k \<longrightarrow> rooms s k = None \<longrightarrow> rooms (snd (leave_room s b)) = rooms s) \<and>
   (roomId b \<noteq> Some k' \<longrightarrow> rooms (snd (leave_room s b)) k' = rooms s k') \<and>
   sdkCalls (snd (leave_room s b)) = sdkCalls s"
proof (intro conjI impI)
  assume "roomId b = Some k" "rooms s k = Some r"
  then show "rooms (snd (leave_room s b)) k =
        (if filter (\<lambda>p. Some p \<noteq> walletAddress b) (participants r) = [] then None
         else Some (r\<lparr>participants :=
                        filter (\<lambda>p. Some p \<noteq> walletAddress b) (participants r)\<rparr>))"
    by (simp add: leave_room_def leaveRoom_same)
next
  assume "roomId b = Some k" "rooms s k = None"
  then show "rooms (snd (leave_room s b)) = rooms s"
    by (simp add: leave_room_def leaveRoom_unknown)
next
  assume "roomId b \<noteq> Some k'"
  then show "rooms (snd (leave_room s b)) k' = rooms s k'"
    by (cases "roomId b") (simp_all add: leave_room_def leaveRoom_other, simp add: leaveRoom_def)
next
  show "sdkCalls (snd (leave_room s b)) = sdkCalls s"
    by (simp add: leave_room_def)
qed

theorem leave_room_frame_witness:
  "rooms (run initial demo_trace) demo_room_id = Some demo_room \<and>
   rooms (snd (leave_room (run initial demo_trace) guest_body)) demo_room_id =
     Some (demo_room\<lparr>participants := [lit ''0xAAA1'']\<rparr>) \<and>
   rooms (snd (leave_room (run initial demo_trace) guest_body)) alice =
     rooms (run initial demo_trace) alice"
proof -
  have reach: "rooms (run initial demo_trace) demo_room_id = Some demo_room"
    by code_simp
  have b: "roomId guest_body = Some demo_room_id" "roomId guest_body \<noteq> Some alice"
      "walletAddress guest_body = Some (lit ''0xBBB2'')"
    by (simp_all add: guest_body_def demo_room_id_def alice_def lit_def)
  have f: "filter (\<lambda>p. Some p \<noteq> Some (lit ''0xBBB2'')) (participants demo_room) =
             [lit ''0xAAA1'']"
    by (simp add: demo_room_def lit_def)
  from leave_room_frame
         [where b = guest_body and k = demo_room_id and s = "run initial demo_trace"
            and r = demo_room and k' = alice]
       reach b f
  show ?thesis
    by simp
qed

text \<open>
  The claim as it was stated fails where the leaving participant is the only one: the
  room had a host and a creation time before, and has neither afterwards, for it is
  gone.
\<close>

theorem leave_room_frame_counterexample:
  "map_option host (rooms host_alone demo_room_id) = Some (lit ''0xAAA1'') \<and>
   map_option created (rooms host_alone demo_room_id) = Some 1700000000000 \<and>
   map_option host (rooms (snd (leave_room host_alone host_leaves_body)) demo_room_id) = None \<and>
   map_option created (rooms (snd (leave_room host_alone host_leaves_body)) demo_room_id)
     = None"
  by code_simp

section \<open>The format of the room code\<close>

lemma substring_from2:
  "substring r 2 12 = take 10 (drop 2 r)"
  by (auto simp: substring_def Let_def min_def max_def)

lemma upper_of_digit36: "is_digit36 c \<Longrightarrow> is_upper_alnum (ascii_upper c)"
  unfolding is_digit36_def is_upper_alnum_def ascii_upper_def
  by (auto simp: word_le_nat_alt unat_sub_if')

lemma digit36_ascii: "is_digit36 c \<Longrightarrow> is_ascii c"
  unfolding is_digit36_def is_ascii_def
  by (auto simp: word_le_nat_alt word_less_nat_alt)

lemma toUpperCase_digits:
  "list_all is_digit36 s \<Longrightarrow> toUpperCase rt s = map ascii_upper s"
  by (simp add: toUpperCase_def list_all_iff digit36_ascii)

lemma generateRoomId_digits:
  assumes "radix36_fraction (mathRandom36 rt)"
  shows "generateRoomId rt = map ascii_upper (take 10 (drop 2 (mathRandom36 rt))) \<and>
         list_all is_digit36 (take 10 (drop 2 (mathRandom36 rt)))"
proof -
  have "list_all is_digit36 (drop 2 (mathRandom36 rt))"
    using assms by (auto simp: radix36_fraction_def lit_def)
  then have d: "list_all is_digit36 (take 10 (drop 2 (mathRandom36 rt)))"
    by (auto simp: list_all_iff dest: in_set_takeD)
  then show ?thesis
    by (simp add: generateRoomId_def substring_from2 toUpperCase_digits)
qed

text \<open>
  What the generator computes on the radix-36 writing of a number from zero up to one:
  upper-case letters and digits only, as many as there are digits behind the point, and
  ten at most.
\<close>

lemma generateRoomId_upper_alnum:
  "radix36_fraction (mathRandom36 rt) \<Longrightarrow>
   length (generateRoomId rt) = min 10 (length (mathRandom36 rt) - 2) \<and>
   list_all is_upper_alnum (generateRoomId rt)"
proof -
  assume a: "radix36_fraction (mathRandom36 rt)"
  note g = generateRoomId_digits [OF a]
  have "length (generateRoomId rt) = min 10 (length (mathRandom36 rt) - 2)"
    using g by simp
  moreover have "list_all is_upper_alnum (generateRoomId rt)"
    using g by (auto simp: list_all_iff upper_of_digit36)
  ultimately show ?thesis by simp
qed

text \<open>
  C7.  The room code is to have ten characters, upper-case letters and digits, at every
  invocation.  \<^verbatim>\<open>substring(2, 12)\<close> aims at the ten characters behind \<open>0.\<close>, but the
  radix-36 writing may have fewer digits and nothing fills the code up, so the generator
  misses the length.  When \<^verbatim>\<open>Math.random()\<close> returns one half the code is the single
  character \<open>I\<close>.  When it returns zero the code is the empty string: create-room
  registers the room under it and answers with it, and join-room then refuses that room
  id with status 400, since its presence check takes the empty string for a missing
  field; the room cannot be joined.
\<close>

theorem generateRoomId_short_code:
  "radix36_fraction (mathRandom36 half_runtime) \<and>
   generateRoomId half_runtime = lit ''I'' \<and>
   length (generateRoomId half_runtime) = 1 \<and>
   radix36_fraction (mathRandom36 zero_runtime) \<and>
   generateRoomId zero_runtime = [] \<and>
   fst (create_room zero_runtime initial host_body) =
     \<lparr> status = 200,
       payload = CreateRoomBody [] (lit ''jwt.0xAAA1'')
                   (Some (lit ''wss://blockcall.livekit.cloud'')) \<rparr> \<and>
   rooms (snd (create_room zero_runtime initial host_body)) [] =
     Some \<lparr> room_id = [], host = lit ''0xAAA1'', participants = [lit ''0xAAA1''],
            created = 1700000000000 \<rparr> \<and>
   fst (join_room demo_runtime (snd (create_room zero_runtime initial host_body))
          empty_id_body) =
     \<lparr> status = 400, payload = ErrorBody (lit ''Room ID and wallet address required'') \<rparr>"
  by code_simp

section \<open>Failures of the create-room handler\<close>

text \<open>
  C8.  When the body carries a non-empty \<open>walletAddress\<close> and \<^verbatim>\<open>generateToken\<close> throws
  with message \<open>msg\<close>, create-room answers with status 500 and the body \<open>{error: msg}\<close>,
  and the registry is the old one with the new room in it: host and sole participant
  are the wallet address.
\<close>

theorem create_room_keeps_room_on_token_failure:
  "walletAddress b = Some H \<Longrightarrow> H \<noteq> [] \<Longrightarrow>
   generateToken rt (lit ''meeting-'' @ generateRoomId rt) H
     \<lparr> md_displayName = None, md_walletAddress = H, md_isHost = Some True,
       md_isCaller = None, md_callType = lit ''group'' \<rparr> = Inl msg \<Longrightarrow>
   fst (create_room rt s b) = \<lparr> status = 500, payload = ErrorBody msg \<rparr> \<and>
   rooms (snd (create_room rt s b)) =
     (rooms s)(generateRoomId rt \<mapsto>
        \<lparr> room_id = generateRoomId rt, host = H, participants = [H], created = dateNow rt \<rparr>)"
  by (simp add: create_room_def falsy_def Let_def createRoom_def caught_def)

theorem create_room_keeps_room_on_token_failure_witness:
  "fst (create_room failing_runtime initial host_body) =
     \<lparr> status = 500, payload = ErrorBody (lit ''api-key and api-secret must be set'') \<rparr> \<and>
   rooms (snd (create_room failing_runtime initial host_body)) demo_room_id =
     Some \<lparr> room_id = demo_room_id, host = lit ''0xAAA1'', participants = [lit ''0xAAA1''],
            created = 1700000000000 \<rparr>"
proof -
  have w: "walletAddress host_body = Some (lit ''0xAAA1'')" "lit ''0xAAA1'' \<noteq> []"
    by (simp_all add: host_body_def lit_def)
  have t: "generateToken failing_runtime (lit ''meeting-'' @ generateRoomId failing_runtime)
      (lit ''0xAAA1'')
      \<lparr> md_displayName = None, md_walletAddress = lit ''0xAAA1'', md_isHost = Some True,
        md_isCaller = None, md_callType = lit ''group'' \<rparr>
      = Inl (lit ''api-key and api-secret must be set'')"
    by (simp add: generateToken_def failing_runtime_def)
  have g: "generateRoomId failing_runtime = demo_room_id"
    by code_simp
  have d: "dateNow failing_runtime = 1700000000000"
    by (simp add: failing_runtime_def demo_runtime_def)
  from create_room_keeps_room_on_token_failure [OF w t, of initial] show ?thesis
    by (simp add: g d)
qed

text \<open>
  C9.  When the body has no \<open>walletAddress\<close>, create-room answers with status 400 and the
  body \<open>{error: "Wallet address required"}\<close>, and the server state is the one before the
  request: no room is added to the registry and no token is requested.
\<close>

theorem create_room_requires_wallet:
  "walletAddress b = None \<Longrightarrow>
   create_room rt s b =
     (\<lparr> status = 400, payload = ErrorBody (lit ''Wallet address required'') \<rparr>, s)"
  by (simp add: create_room_def falsy_def fail_def)

theorem create_room_requires_wallet_witness:
  "walletAddress no_body = None \<and>
   create_room demo_runtime initial no_body =
     (\<lparr> status = 400, payload = ErrorBody (lit ''Wallet address required'') \<rparr>, initial)"
proof -
  have w: "walletAddress no_body = None"
    by (simp add: no_body_def)
  from create_room_requires_wallet [OF w, of demo_runtime initial] w show ?thesis
    by simp
qed

end
